theory Spec2Isabelle
  imports Main "HOL-Library.Log_Nat"
begin

section \<open>calibre-comicvine: title parsing and candidate ranking (utils.py)\<close>

text \<open>
  The module is Python 2 code (it calls \<^verbatim>\<open>unicode\<close> and puts the inline flag
  \<^verbatim>\<open>(?i)\<close> in the middle of a pattern).  Strings are modelled as HOL strings, that is
  lists of 8-bit characters, and stand for Python 2 \<^verbatim>\<open>str\<close> values: \<^verbatim>\<open>isdigit\<close>,
  \<^verbatim>\<open>lower\<close>, \<^verbatim>\<open>\d\<close> and \<^verbatim>\<open>\w\<close> look at ASCII only, \<^verbatim>\<open>len\<close> counts characters of
  the list, and \<^verbatim>\<open>unicode(s)\<close> decodes with the default ASCII codec.
\<close>

subsection \<open>Python values and errors\<close>

datatype py_error = TypeError | KeyError | UnicodeDecodeError

text \<open>The values that reach \<^verbatim>\<open>issue_number\<close>: \<^verbatim>\<open>None\<close>, an \<^verbatim>\<open>int\<close> or a string.
  Python's \<^verbatim>\<open>==\<close> between them is equality of this datatype: a string never equals
  an integer or \<^verbatim>\<open>None\<close>.\<close>

datatype pyval = PyNone | PyInt int | PyStr string

subsection \<open>String primitives\<close>

definition newline :: char where
  "newline = CHR 0x0A"

definition is_digit :: "char \<Rightarrow> bool" where
  "is_digit c = (let n = (of_char c :: nat) in 48 \<le> n \<and> n \<le> 57)"

definition is_upper :: "char \<Rightarrow> bool" where
  "is_upper c = (let n = (of_char c :: nat) in 65 \<le> n \<and> n \<le> 90)"

definition is_lower :: "char \<Rightarrow> bool" where
  "is_lower c = (let n = (of_char c :: nat) in 97 \<le> n \<and> n \<le> 122)"

text \<open>\<^verbatim>\<open>\w\<close> of a pattern compiled without the LOCALE or UNICODE flag.\<close>

definition is_word :: "char \<Rightarrow> bool" where
  "is_word c = (is_digit c \<or> is_upper c \<or> is_lower c \<or> c = CHR ''_'')"

definition lower_char :: "char \<Rightarrow> char" where
  "lower_char c = (if is_upper c then char_of ((of_char c :: nat) + 32) else c)"

definition py_lower :: "string \<Rightarrow> string" where
  "py_lower s = map lower_char s"

text \<open>\<^verbatim>\<open>s.isdigit()\<close>: at least one character, and all of them digits.\<close>

definition py_isdigit :: "string \<Rightarrow> bool" where
  "py_isdigit s = (s \<noteq> [] \<and> list_all is_digit s)"

text \<open>\<^verbatim>\<open>int(s)\<close> on a string that passed \<^verbatim>\<open>isdigit\<close>: decimal digits, leading
  zeros allowed.\<close>

definition digit_val :: "char \<Rightarrow> int" where
  "digit_val c = int (of_char c) - 48"

definition py_int_of_str :: "string \<Rightarrow> int" where
  "py_int_of_str s = foldl (\<lambda>acc c. 10 * acc + digit_val c) 0 s"

text \<open>\<^verbatim>\<open>s.strip(chars)\<close>: drop leading and trailing characters of the set.\<close>

definition py_strip :: "string \<Rightarrow> string \<Rightarrow> string" where
  "py_strip chars s =
     rev (dropWhile (\<lambda>c. c \<in> set chars) (rev (dropWhile (\<lambda>c. c \<in> set chars) s)))"

fun startswith :: "string \<Rightarrow> string \<Rightarrow> bool" where
  "startswith s [] = True"
| "startswith [] (p # ps) = False"
| "startswith (c # cs) (p # ps) = (c = p \<and> startswith cs ps)"

text \<open>\<^verbatim>\<open>sub in s\<close> on strings: \<open>sub\<close> occurs in \<open>s\<close> as a contiguous run.\<close>

fun py_in :: "string \<Rightarrow> string \<Rightarrow> bool" where
  "py_in sub [] = (sub = [])"
| "py_in sub (c # cs) = (startswith (c # cs) sub \<or> py_in sub cs)"

text \<open>\<^verbatim>\<open>s.replace('.', '')\<close>.\<close>

definition remove_periods :: "string \<Rightarrow> string" where
  "remove_periods s = filter (\<lambda>c. c \<noteq> CHR ''.'') s"

subsection \<open>The two patterns of \<^verbatim>\<open>normalised_title\<close>\<close>

text \<open>\<^verbatim>\<open>volume = re.compile(r'^(?i)(v|vol)#?\d+$')\<close>, used with \<^verbatim>\<open>volume.match(token)\<close>.
  The group \<^verbatim>\<open>(v|vol)\<close> is not optional; \<^verbatim>\<open>$\<close> matches at the end of the string
  and before a final newline.\<close>

definition digits_to_end :: "string \<Rightarrow> bool" where
  "digits_to_end s =
     (let r = dropWhile is_digit s
      in takeWhile is_digit s \<noteq> [] \<and> (r = [] \<or> r = [newline]))"

definition hash_digits_to_end :: "string \<Rightarrow> bool" where
  "hash_digits_to_end s =
     (case s of
        [] \<Rightarrow> False
      | c # cs \<Rightarrow> (if c = CHR ''#'' then digits_to_end cs \<or> digits_to_end (c # cs)
                  else digits_to_end (c # cs)))"

definition volume_match :: "string \<Rightarrow> bool" where
  "volume_match token =
     ((startswith (py_lower (take 1 token)) ''v'' \<and> hash_digits_to_end (drop 1 token))
      \<or> (startswith (py_lower (take 3 token)) ''vol'' \<and> hash_digits_to_end (drop 3 token)))"

text \<open>\<^verbatim>\<open>abbrev = re.compile(r'(?i)((?:(?:\w).){3,})')\<close>.  The period of the pattern is
  not escaped, so a group is one word character followed by any character but a
  newline.  \<open>abbrev_groups s\<close> is the number of groups the greedy repetition takes at
  the start of \<open>s\<close>; the pattern matches there when that number is at least 3.\<close>

fun abbrev_groups :: "string \<Rightarrow> nat" where
  "abbrev_groups (c # d # rest) =
     (if is_word c \<and> d \<noteq> newline then Suc (abbrev_groups rest) else 0)"
| "abbrev_groups [c] = 0"
| "abbrev_groups [] = 0"

text \<open>\<^verbatim>\<open>strip_abbrev(match)\<close> returns \<^verbatim>\<open>match.string.replace('.', '')\<close>, and
  \<^verbatim>\<open>match.string\<close> is the whole string handed to \<^verbatim>\<open>sub\<close>, not the matched text.\<close>

definition strip_abbrev :: "string \<Rightarrow> string" where
  "strip_abbrev match_string = remove_periods match_string"

text \<open>\<^verbatim>\<open>abbrev.sub(strip_abbrev, title)\<close>: scan from the left; at a match, emit the
  replacement and go on after the match; elsewhere copy one character.\<close>

function abbrev_sub_from :: "string \<Rightarrow> string \<Rightarrow> string" where
  "abbrev_sub_from whole [] = []"
| "abbrev_sub_from whole (c # cs) =
     (if 3 \<le> abbrev_groups (c # cs)
      then strip_abbrev whole @ abbrev_sub_from whole (drop (2 * abbrev_groups (c # cs)) (c # cs))
      else c # abbrev_sub_from whole cs)"
  by pat_completeness auto
termination
  by (relation "measure (\<lambda>(whole, s). length s)") auto

definition abbrev_sub :: "string \<Rightarrow> string" where
  "abbrev_sub title = abbrev_sub_from title title"

text \<open>Written from the spec's words, for comparison with \<open>abbrev_sub\<close>: a run of
  three or more groups of one character and a period loses its periods, and every
  character outside such a run stays.\<close>

fun abbrev_run :: "string \<Rightarrow> nat" where
  "abbrev_run (c # d # rest) =
     (if is_word c \<and> d = CHR ''.'' then Suc (abbrev_run rest) else 0)"
| "abbrev_run [c] = 0"
| "abbrev_run [] = 0"

function collapse_abbreviations_spec :: "string \<Rightarrow> string" where
  "collapse_abbreviations_spec [] = []"
| "collapse_abbreviations_spec (c # cs) =
     (if 3 \<le> abbrev_run (c # cs)
      then remove_periods (take (2 * abbrev_run (c # cs)) (c # cs))
             @ collapse_abbreviations_spec (drop (2 * abbrev_run (c # cs)) (c # cs))
      else c # collapse_abbreviations_spec cs)"
  by pat_completeness auto
termination
  by (relation "measure length") auto

subsection \<open>\<^verbatim>\<open>normalised_title\<close>\<close>

text \<open>\<^verbatim>\<open>if token.startswith('#'): token = token.strip('#:')\<close>.\<close>

definition clean_token :: "string \<Rightarrow> string" where
  "clean_token token = (if startswith token ''#'' then py_strip ''#:'' token else token)"

text \<open>The loop over the tokens, with \<^verbatim>\<open>title_tokens\<close> as the accumulator;
  \<^verbatim>\<open>continue\<close> and \<^verbatim>\<open>break\<close> are the first and the third branch.\<close>

fun normalise_tokens :: "string list \<Rightarrow> string list \<Rightarrow> int option \<times> string list" where
  "normalise_tokens [] title_tokens = (None, title_tokens)"
| "normalise_tokens (token # rest) title_tokens =
     (if volume_match token then normalise_tokens rest title_tokens
      else
        let token = clean_token token
        in if py_isdigit token then (Some (py_int_of_str token), title_tokens)
           else normalise_tokens rest (title_tokens @ [py_lower token]))"

text \<open>\<^verbatim>\<open>query.get_title_tokens\<close> belongs to the host application and is a parameter.\<close>

definition normalised_title ::
  "(string \<Rightarrow> string list) \<Rightarrow> string \<Rightarrow> int option \<times> string list" where
  "normalised_title get_title_tokens title =
     normalise_tokens (get_title_tokens (abbrev_sub title)) []"

text \<open>A plain tokenizer for the examples: split at blanks, drop empty words
  (\<^verbatim>\<open>title.split(' ')\<close> without the empty strings).\<close>

fun split_blanks :: "string \<Rightarrow> string \<Rightarrow> string list" where
  "split_blanks word [] = (if word = [] then [] else [word])"
| "split_blanks word (c # cs) =
     (if c = CHR '' '' then (if word = [] then [] else [word]) @ split_blanks [] cs
      else split_blanks (word @ [c]) cs)"

definition blank_tokens :: "string \<Rightarrow> string list" where
  "blank_tokens title = split_blanks [] title"

subsection \<open>Floats\<close>

text \<open>A Python float is modelled by the rational number it denotes.  A product of
  floats is the exact product rounded to the nearest binary64 value (53 significant
  bits, ties to even, gradual underflow below \<open>2 ^ -1022\<close>); overflow to infinity
  and NaN are outside the model, and the product of 100 with a ratio in \<open>[0, 1]\<close>
  reaches neither.\<close>

definition pow2 :: "int \<Rightarrow> rat" where
  "pow2 e = (if 0 \<le> e then 2 ^ nat e else 1 / 2 ^ nat (- e))"

definition floor_log2 :: "rat \<Rightarrow> int" where
  "floor_log2 x =
     (let (p, q) = quotient_of x;
          e = int (floorlog 2 (nat p)) - int (floorlog 2 (nat q))
      in if pow2 e \<le> x then e else e - 1)"

definition round_half_even :: "rat \<Rightarrow> int" where
  "round_half_even x =
     (let f = \<lfloor>x\<rfloor>; d = x - of_int f
      in if d < 1 / 2 then f else if 1 / 2 < d then f + 1 else if even f then f else f + 1)"

definition round_binary64 :: "rat \<Rightarrow> rat" where
  "round_binary64 x =
     (if x = 0 then 0
      else let e = max (floor_log2 \<bar>x\<bar>) (- 1022); ulp = pow2 (e - 52)
           in of_int (round_half_even (x / ulp)) * ulp)"

definition float_mul :: "rat \<Rightarrow> rat \<Rightarrow> rat" where
  "float_mul a b = round_binary64 (a * b)"

text \<open>\<^verbatim>\<open>int(x)\<close> on a float truncates towards zero.\<close>

definition py_int_of_float :: "rat \<Rightarrow> int" where
  "py_int_of_float x = (if 0 \<le> x then \<lfloor>x\<rfloor> else \<lceil>x\<rceil>)"

subsection \<open>The candidate record\<close>

record date =
  year :: int
  month :: nat
  day :: nat

text \<open>Modelled from the spec: the host's \<^verbatim>\<open>Metadata\<close> class is not part of the module.
  The fields are those of the spec's CandidateMetadata: \<^verbatim>\<open>series\<close> and
  \<^verbatim>\<open>series_index\<close> are strings (\<^verbatim>\<open>build_meta\<close> stores \<^verbatim>\<open>str(issue.issue_number)\<close>),
  \<^verbatim>\<open>pubdate\<close> is a date or \<^verbatim>\<open>None\<close>, and the identifiers are a dictionary, kept as
  an association list.\<close>

record metadata =
  series :: string
  series_index :: string
  pubdate :: "date option"
  authors :: "string list"
  identifiers :: "(string \<times> string) list"

text \<open>Modelled from the spec: \<^verbatim>\<open>metadata.get_identifier(typ)\<close> is the candidate's
  identifier of that type, \<^verbatim>\<open>None\<close> when it has none.\<close>

definition get_identifier :: "metadata \<Rightarrow> string \<Rightarrow> string option" where
  "get_identifier m typ = map_of (identifiers m) typ"

text \<open>\<^verbatim>\<open>d[key]\<close> on a dictionary raises \<^verbatim>\<open>KeyError\<close> for a missing key.\<close>

definition dict_getitem :: "(string \<times> string) list \<Rightarrow> string \<Rightarrow> py_error + string" where
  "dict_getitem d k = (case map_of d k of None \<Rightarrow> Inl KeyError | Some v \<Rightarrow> Inr v)"

subsection \<open>\<^verbatim>\<open>score_title\<close>\<close>

text \<open>\<^verbatim>\<open>re.compile(r'\((\d{4})\)').search(title)\<close>: the four digits of the leftmost
  parenthesised group of exactly four digits.\<close>

fun match_year_search :: "string \<Rightarrow> string option" where
  "match_year_search [] = None"
| "match_year_search (c # cs) =
     (if c = CHR ''('' \<and> 5 \<le> length cs \<and> list_all is_digit (take 4 cs) \<and> cs ! 4 = CHR '')''
      then Some (take 4 cs) else match_year_search cs)"

text \<open>\<^verbatim>\<open>unicode(s)\<close> on a \<^verbatim>\<open>str\<close>: ASCII decoding, which fails on a byte above 127.\<close>

definition py_unicode :: "string \<Rightarrow> py_error + string" where
  "py_unicode s =
     (if list_all (\<lambda>c. (of_char c :: nat) < 128) s then Inr s else Inl UnicodeDecodeError)"

text \<open>The \<^verbatim>\<open>try\<close> block of the loop.  \<open>levenshtein_ratio\<close> is \<^verbatim>\<open>Levenshtein.ratio\<close>, or
  \<open>None\<close> when the optional import failed: then the name lookup raises
  \<^verbatim>\<open>NameError\<close> before any argument is evaluated, the handler passes, and nothing is
  added.\<close>

definition similarity_term ::
  "(string \<Rightarrow> string \<Rightarrow> rat) option \<Rightarrow> string \<Rightarrow> string \<Rightarrow> py_error + int" where
  "similarity_term levenshtein_ratio volume title =
     (case levenshtein_ratio of
        None \<Rightarrow> Inr 0
      | Some ratio \<Rightarrow>
          (case py_unicode volume of
             Inl e \<Rightarrow> Inl e
           | Inr v \<Rightarrow>
               (case py_unicode title of
                  Inl e \<Rightarrow> Inl e
                | Inr t \<Rightarrow> Inr (100 - py_int_of_float (float_mul 100 (ratio v t))))))"

text \<open>The loop over \<^verbatim>\<open>title_tokens\<close>, with the running \<^verbatim>\<open>score\<close>.\<close>

fun score_tokens ::
  "(string \<Rightarrow> string \<Rightarrow> rat) option \<Rightarrow> metadata \<Rightarrow> string \<Rightarrow> string \<Rightarrow> pyval
     \<Rightarrow> string list \<Rightarrow> int \<Rightarrow> py_error + int" where
  "score_tokens lev m volume title issue_number [] score = Inr score"
| "score_tokens lev m volume title issue_number (token # rest) score =
     (let score = (if \<not> py_in token volume then score + 10 else score)
      in case similarity_term lev volume title of
           Inl e \<Rightarrow> Inl e
         | Inr d \<Rightarrow>
             (let score = score + d;
                  score = (if PyStr (series_index m) \<noteq> issue_number then score + 20 else score);
                  score = (if \<not> py_in (series_index m) title then score + 10 else score)
              in score_tokens lev m volume title issue_number rest score))"

text \<open>\<^verbatim>\<open>volume = '%s #%s' % (metadata.series.lower(), metadata.series_index)\<close>.\<close>

definition volume_label :: "metadata \<Rightarrow> string" where
  "volume_label m = py_lower (series m) @ '' #'' @ series_index m"

text \<open>The term added when the title has a year and the candidate a date.\<close>

definition year_term :: "metadata \<Rightarrow> string \<Rightarrow> int" where
  "year_term m title =
     (case match_year_search title of
        None \<Rightarrow> 0
      | Some y \<Rightarrow>
          (case pubdate m of
             None \<Rightarrow> 0
           | Some d \<Rightarrow> \<bar>year d - py_int_of_str y\<bar>))"

definition length_term :: "metadata \<Rightarrow> string \<Rightarrow> int" where
  "length_term m title = \<bar>int (length (volume_label m)) - int (length title)\<bar>"

text \<open>\<^verbatim>\<open>title\<close> and \<^verbatim>\<open>title_tokens\<close> default to \<^verbatim>\<open>None\<close>: searching \<^verbatim>\<open>None\<close> and
  iterating over \<^verbatim>\<open>None\<close> raise \<^verbatim>\<open>TypeError\<close>.\<close>

definition score_title ::
  "(string \<Rightarrow> string \<Rightarrow> rat) option \<Rightarrow> metadata \<Rightarrow> string option \<Rightarrow> pyval
     \<Rightarrow> string list option \<Rightarrow> py_error + int" where
  "score_title lev m title issue_number title_tokens =
     (case title of
        None \<Rightarrow> Inl TypeError
      | Some title \<Rightarrow>
          (let score = 0;
               score = score + year_term m title;
               score = score + length_term m title
           in case title_tokens of
                None \<Rightarrow> Inl TypeError
              | Some toks \<Rightarrow> score_tokens lev m (volume_label m) title issue_number toks score))"

subsection \<open>\<^verbatim>\<open>keygen\<close>\<close>

text \<open>The comparison inside the \<^verbatim>\<open>try\<close> block; a \<^verbatim>\<open>KeyError\<close> of the subscript is
  caught and passes.\<close>

definition comicvine_equal :: "metadata \<Rightarrow> (string \<times> string) list \<Rightarrow> bool" where
  "comicvine_equal m ref_identifiers =
     (case dict_getitem ref_identifiers ''comicvine'' of
        Inl e \<Rightarrow> False
      | Inr v \<Rightarrow> get_identifier m ''comicvine'' = Some v)"

definition author_penalty :: "metadata \<Rightarrow> string list \<Rightarrow> int \<Rightarrow> int" where
  "author_penalty m ref_authors score =
     foldl (\<lambda>score author. if author \<notin> set (authors m) then score + 10 else score)
       score ref_authors"

text \<open>The keyword arguments \<^verbatim>\<open>**kwargs\<close> are \<^verbatim>\<open>issue_number\<close> and \<^verbatim>\<open>title_tokens\<close>.
  An empty dictionary, an empty title and an empty author list are false in an
  \<^verbatim>\<open>if\<close>, as \<^verbatim>\<open>None\<close> is.\<close>

definition keygen ::
  "(string \<Rightarrow> string \<Rightarrow> rat) option \<Rightarrow> metadata \<Rightarrow> string option \<Rightarrow> string list option
     \<Rightarrow> (string \<times> string) list option \<Rightarrow> pyval \<Rightarrow> string list option \<Rightarrow> py_error + int" where
  "keygen lev m title ref_authors ref_identifiers issue_number title_tokens =
     (if (case ref_identifiers of
            None \<Rightarrow> False
          | Some ids \<Rightarrow> ids \<noteq> [] \<and> comicvine_equal m ids)
      then Inr 0
      else
        (case (if title \<noteq> None \<and> title \<noteq> Some []
               then score_title lev m title issue_number title_tokens else Inr 0) of
           Inl e \<Rightarrow> Inl e
         | Inr t \<Rightarrow>
             Inr (case ref_authors of
                    None \<Rightarrow> 0 + t
                  | Some auths \<Rightarrow> if auths = [] then 0 + t else author_penalty m auths (0 + t))))"

text \<open>A stand-in for the similarity primitive in the examples: it reports the same
  ratio for every pair of strings.\<close>

definition fixed_ratio :: "rat \<Rightarrow> string \<Rightarrow> string \<Rightarrow> rat" where
  "fixed_ratio r a b = r"

text \<open>The candidate of the spec's example.\<close>

definition saga :: metadata where
  "saga = \<lparr>series = ''Saga'', series_index = ''3'',
     pubdate = Some \<lparr>year = 2012, month = 5, day = 16\<rparr>,
     authors = [''Brian K. Vaughan''], identifiers = [(''comicvine'', ''4000-333458'')]\<rparr>"


section \<open>Properties\<close>

subsection \<open>The ranking key\<close>

text \<open>C1: when the reference identifiers hold a \<^verbatim>\<open>comicvine\<close> entry and the
  candidate holds the same one, \<^verbatim>\<open>keygen\<close> returns 0, whatever the title, the authors,
  the issue number and the tokens are (also where \<^verbatim>\<open>score_title\<close> would raise).\<close>

theorem keygen_comicvine_match:
  assumes "dict_getitem ref_identifiers ''comicvine'' = Inr v"
    and "get_identifier m ''comicvine'' = Some v"
  shows "keygen lev m title ref_authors (Some ref_identifiers) issue_number title_tokens = Inr 0"
proof -
  from assms(1) have "ref_identifiers \<noteq> []"
    by (auto simp: dict_getitem_def)
  moreover from assms have "comicvine_equal m ref_identifiers"
    by (simp add: comicvine_equal_def)
  ultimately show ?thesis
    by (simp add: keygen_def)
qed

theorem keygen_comicvine_match_witness:
  "dict_getitem [(''comicvine'', ''4000-333458'')] ''comicvine'' = Inr ''4000-333458''
   \<and> get_identifier saga ''comicvine'' = Some ''4000-333458''
   \<and> keygen None saga (Some ''Batman #1 (1940)'') (Some [''Bob Kane''])
        (Some [(''comicvine'', ''4000-333458'')]) (PyInt 1) None = Inr 0"
proof -
  have a: "dict_getitem [(''comicvine'', ''4000-333458'')] ''comicvine'' = Inr ''4000-333458''"
    by (simp add: dict_getitem_def)
  have b: "get_identifier saga ''comicvine'' = Some ''4000-333458''"
    by (simp add: get_identifier_def saga_def)
  from a b keygen_comicvine_match [OF a b] show ?thesis by simp
qed

text \<open>C9: without a title and without authors \<^verbatim>\<open>keygen\<close> returns 0 for every
  candidate, whether or not the identifiers are given or match; a stable sort on that
  key (here \<open>sort_key\<close>) leaves the candidates in the order they came in.\<close>

theorem keygen_no_title_no_authors:
  "keygen lev m None None ref_identifiers issue_number title_tokens = Inr 0
   \<and> keygen lev m (Some []) (Some []) ref_identifiers issue_number title_tokens = Inr 0
   \<and> sort_key (\<lambda>c. projr (keygen lev c None None ref_identifiers issue_number title_tokens))
        candidates = candidates"
proof -
  have k: "keygen lev c None None ref_identifiers issue_number title_tokens = Inr 0" for c
    by (simp add: keygen_def)
  have "sorted (map (\<lambda>c. projr (keygen lev c None None ref_identifiers issue_number title_tokens))
          candidates)"
    by (induction candidates) (simp_all add: k)
  then have "sort_key (\<lambda>c. projr (keygen lev c None None ref_identifiers issue_number title_tokens))
        candidates = candidates"
    by (rule sort_key_id_if_sorted)
  moreover have "keygen lev m (Some []) (Some []) ref_identifiers issue_number title_tokens = Inr 0"
    by (simp add: keygen_def)
  ultimately show ?thesis using k by simp
qed

theorem keygen_no_title_no_authors_witness:
  "keygen None saga None None (Some [(''comicvine'', ''4000-1'')]) (PyInt 3) (Some [''saga''])
     = Inr 0"
  using keygen_no_title_no_authors
    [of None saga "Some [(''comicvine'', ''4000-1'')]" "PyInt 3" "Some [''saga'']" "[]"]
  by simp

subsection \<open>The scorer\<close>

text \<open>The loop in closed form: when the \<^verbatim>\<open>try\<close> block adds \<open>d\<close>, every token adds
  \<open>d\<close>, the two penalties that do not depend on the token, and 10 if it is absent from
  the volume label.  When the block raises, the first token raises.\<close>

lemma score_tokens_returns:
  assumes "similarity_term lev volume title = Inr d"
  shows "score_tokens lev m volume title issue_number toks score =
    Inr (score + 10 * int (length (filter (\<lambda>t. \<not> py_in t volume) toks))
         + int (length toks) * (d + (if PyStr (series_index m) \<noteq> issue_number then 20 else 0)
                                  + (if \<not> py_in (series_index m) title then 10 else 0)))"
  using assms by (induction toks arbitrary: score) (simp_all add: Let_def algebra_simps)

lemma score_tokens_raises:
  assumes "similarity_term lev volume title = Inl e" and "toks \<noteq> []"
  shows "score_tokens lev m volume title issue_number toks score = Inl e"
  using assms by (cases toks) (simp_all add: Let_def)

lemma similarity_term_None: "similarity_term None volume title = Inr 0"
  by (simp add: similarity_term_def)

lemma volume_label_pubdate: "volume_label (m\<lparr>pubdate := p\<rparr>) = volume_label m"
  by (simp add: volume_label_def)

lemma length_term_pubdate: "length_term (m\<lparr>pubdate := p\<rparr>) title = length_term m title"
  by (simp add: length_term_def volume_label_pubdate)

text \<open>C10: with an empty token list the loop body never runs, and the score is the
  year term plus the length term.\<close>

theorem score_title_no_tokens:
  "score_title lev m (Some title) issue_number (Some [])
     = Inr (year_term m title + length_term m title)"
  by (simp add: score_title_def)

theorem score_title_no_tokens_witness:
  "score_title (Some (fixed_ratio (11 / 16))) saga (Some ''Saga #4 (2015)'') (PyInt 4) (Some [])
     = Inr 10"
proof -
  have "year_term saga ''Saga #4 (2015)'' = 3"
    by (simp add: year_term_def saga_def py_int_of_str_def digit_val_def is_digit_def)
  moreover have "length_term saga ''Saga #4 (2015)'' = 7"
    by (simp add: length_term_def volume_label_def saga_def py_lower_def)
  ultimately show ?thesis
    using score_title_no_tokens [of "Some (fixed_ratio (11 / 16))" saga "''Saga #4 (2015)''" "PyInt 4"]
    by simp
qed

text \<open>C2: a candidate with \<^verbatim>\<open>series_index\<close> \<open>''3''\<close> scored against issue number 3
  (the integer that \<^verbatim>\<open>normalised_title\<close> returns).  The comparison
  \<^verbatim>\<open>metadata.series_index != issue_number\<close> is between a string and an integer, so the
  20 points are added: the score is 27, the same as for issue number 4, and 7 only
  when the issue number is passed as the string \<open>''3''\<close>.\<close>

theorem score_title_issue_mismatch_example:
  "score_title None saga (Some ''Saga #3 (2012)'') (PyInt 3) (Some [''saga'']) = Inr 27
   \<and> score_title None saga (Some ''Saga #3 (2012)'') (PyInt 4) (Some [''saga'']) = Inr 27
   \<and> score_title None saga (Some ''Saga #3 (2012)'') (PyStr ''3'') (Some [''saga'']) = Inr 7"
  by code_simp

text \<open>C3, as stated, at one token and a primitive that reports 11/16 = 0.6875: without
  the primitive the score is 27, with it 59, so the term added is 32 = 100 - int(68.75),
  where the spec's formula \<open>100 - round (100 * similarity)\<close> gives 31.\<close>

theorem score_title_similarity_round_counterexample:
  "score_title None saga (Some ''Saga #3 (2012)'') (PyInt 3) (Some [''saga'']) = Inr 27
   \<and> score_title (Some (fixed_ratio (11 / 16))) saga (Some ''Saga #3 (2012)'') (PyInt 3)
        (Some [''saga'']) = Inr 59
   \<and> 100 - round (100 * fixed_ratio (11 / 16) (volume_label saga) ''Saga #3 (2012)'') = 31
   \<and> score_title (Some (fixed_ratio (11 / 16))) saga (Some ''Saga #3 (2012)'') (PyInt 3)
        (Some [''saga''])
       \<noteq> Inr (27 + int (length [''saga''])
                  * (100 - round (100 * fixed_ratio (11 / 16) (volume_label saga) ''Saga #3 (2012)'')))"
  by code_simp

text \<open>C3, amended: when the primitive is configured and both strings decode, the score
  is the score without the primitive plus, once per title token,
  \<open>100 - int (100 * similarity)\<close> with \<^verbatim>\<open>int\<close> truncating; without the primitive
  nothing is added (the first conjunct is the score of that case).\<close>

theorem score_title_similarity_per_token:
  assumes "py_unicode (volume_label m) = Inr v" and "py_unicode title = Inr t"
  shows "\<exists>s0. score_title None m (Some title) issue_number (Some toks) = Inr s0
     \<and> score_title (Some ratio) m (Some title) issue_number (Some toks)
         = Inr (s0 + int (length toks) * (100 - py_int_of_float (float_mul 100 (ratio v t))))"
proof -
  have "similarity_term (Some ratio) (volume_label m) title
          = Inr (100 - py_int_of_float (float_mul 100 (ratio v t)))"
    using assms by (simp add: similarity_term_def)
  from score_tokens_returns [OF this] score_tokens_returns [OF similarity_term_None]
  show ?thesis
    by (simp add: score_title_def algebra_simps)
qed

theorem score_title_similarity_per_token_witness:
  "py_unicode (volume_label saga) = Inr ''saga #3''
   \<and> py_unicode ''Saga #3 (2012)'' = Inr ''Saga #3 (2012)''
   \<and> score_title None saga (Some ''Saga #3 (2012)'') (PyInt 3) (Some [''saga'', ''three'']) = Inr 57
   \<and> score_title (Some (fixed_ratio (11 / 16))) saga (Some ''Saga #3 (2012)'') (PyInt 3)
        (Some [''saga'', ''three'']) = Inr (57 + 2 * 32)"
proof -
  have a: "py_unicode (volume_label saga) = Inr ''saga #3''"
    by code_simp
  have b: "py_unicode ''Saga #3 (2012)'' = Inr ''Saga #3 (2012)''"
    by code_simp
  have c: "score_title None saga (Some ''Saga #3 (2012)'') (PyInt 3) (Some [''saga'', ''three''])
            = Inr 57"
    by code_simp
  have d: "py_int_of_float (float_mul 100 (fixed_ratio (11 / 16) ''saga #3'' ''Saga #3 (2012)'')) = 68"
    by code_simp
  from score_title_similarity_per_token [OF a b, of "PyInt 3" "[''saga'', ''three'']" "fixed_ratio (11 / 16)"]
  show ?thesis using a b c d by simp
qed

text \<open>C7: for two token lists of the same length, with title, candidate, issue number
  and primitive fixed, the list with at least as many tokens absent from the volume
  label scores at least as much (and returns whenever the other does).\<close>

theorem score_title_monotone_absent:
  assumes "length toks1 = length toks2"
    and "length (filter (\<lambda>t. \<not> py_in t (volume_label m)) toks1)
           \<le> length (filter (\<lambda>t. \<not> py_in t (volume_label m)) toks2)"
    and "score_title lev m (Some title) issue_number (Some toks1) = Inr s1"
  shows "\<exists>s2. score_title lev m (Some title) issue_number (Some toks2) = Inr s2 \<and> s1 \<le> s2"
proof (cases "similarity_term lev (volume_label m) title")
  case (Inr d)
  with assms show ?thesis
    by (auto simp: score_title_def score_tokens_returns)
next
  case (Inl e)
  have "toks1 = []"
  proof (rule ccontr)
    assume "toks1 \<noteq> []"
    with Inl assms(3) show False
      by (simp add: score_title_def score_tokens_raises)
  qed
  with assms show ?thesis
    by (simp add: score_title_def)
qed

theorem score_title_monotone_absent_witness:
  "score_title (Some (fixed_ratio (11 / 16))) saga (Some ''Saga #3 (2012)'') (PyInt 3)
      (Some [''saga'', ''#3'']) = Inr 111
   \<and> (\<exists>s2. score_title (Some (fixed_ratio (11 / 16))) saga (Some ''Saga #3 (2012)'') (PyInt 3)
        (Some [''saga'', ''three'']) = Inr s2 \<and> 111 \<le> s2)"
proof -
  have l: "length [''saga'', ''#3''] = length [''saga'', ''three'']"
    by simp
  have f: "length (filter (\<lambda>t. \<not> py_in t (volume_label saga)) [''saga'', ''#3''])
           \<le> length (filter (\<lambda>t. \<not> py_in t (volume_label saga)) [''saga'', ''three''])"
    by code_simp
  have s: "score_title (Some (fixed_ratio (11 / 16))) saga (Some ''Saga #3 (2012)'') (PyInt 3)
      (Some [''saga'', ''#3'']) = Inr 111"
    by code_simp
  from score_title_monotone_absent [OF l f s] s show ?thesis by simp
qed




subsection \<open>The title parser\<close>

text \<open>The loop in closed form: volume markers are dropped, the other tokens are
  cleaned, the first cleaned token that passes \<^verbatim>\<open>isdigit\<close> is the issue number, and
  the cleaned tokens before it are the title tokens, lower-cased.\<close>

lemma normalise_tokens_closed:
  "normalise_tokens toks acc =
     (case dropWhile (\<lambda>t. \<not> py_isdigit t)
             (map clean_token (filter (\<lambda>t. \<not> volume_match t) toks)) of
        [] \<Rightarrow> None
      | d # post \<Rightarrow> Some (py_int_of_str d),
      acc @ map py_lower (takeWhile (\<lambda>t. \<not> py_isdigit t)
             (map clean_token (filter (\<lambda>t. \<not> volume_match t) toks))))"
  by (induction toks arbitrary: acc) (simp_all add: Let_def)

text \<open>C4, as stated, at the title \<open>''Up v2''\<close> with the blank tokenizer: no token has an
  all-digit cleaned form and the issue number is absent, but the word \<open>''v2''\<close> of the
  title is a volume marker and is not among the title tokens.\<close>

theorem normalised_title_volume_marker_counterexample:
  "normalised_title blank_tokens ''Up v2'' = (None, [''up''])
   \<and> ''v2'' \<in> set (blank_tokens (abbrev_sub ''Up v2''))
   \<and> \<not> py_isdigit (clean_token ''v2'')
   \<and> py_lower ''v2'' \<notin> set (snd (normalised_title blank_tokens ''Up v2''))"
  by code_simp

text \<open>C4, amended: among the tokens of the pre-processed title that are not volume
  markers, the first whose cleaned form is all digits gives the issue number, and only
  the cleaned, lower-cased tokens before it are kept; when there is none, the issue
  number is absent and every token that is not a volume marker is kept, cleaned and
  lower-cased, in order.\<close>

theorem normalised_title_issue_number:
  assumes "map clean_token (filter (\<lambda>t. \<not> volume_match t) (get_title_tokens (abbrev_sub title)))
             = cleaned"
  shows "(cleaned = pre @ d # post \<and> (\<forall>t \<in> set pre. \<not> py_isdigit t) \<and> py_isdigit d
            \<longrightarrow> normalised_title get_title_tokens title = (Some (py_int_of_str d), map py_lower pre))
     \<and> ((\<forall>t \<in> set cleaned. \<not> py_isdigit t)
            \<longrightarrow> normalised_title get_title_tokens title = (None, map py_lower cleaned))"
proof -
  let ?P = "\<lambda>t. \<not> py_isdigit t"
  have nt: "normalised_title get_title_tokens title =
              (case dropWhile ?P cleaned of [] \<Rightarrow> None | d # post \<Rightarrow> Some (py_int_of_str d),
               map py_lower (takeWhile ?P cleaned))"
    by (simp add: normalised_title_def normalise_tokens_closed assms)
  have "normalised_title get_title_tokens title = (Some (py_int_of_str d), map py_lower pre)"
    if a: "cleaned = pre @ d # post \<and> (\<forall>t \<in> set pre. \<not> py_isdigit t) \<and> py_isdigit d"
  proof -
    from a have dw: "dropWhile ?P cleaned = d # post"
      by (simp add: dropWhile_append3)
    from a have tw: "takeWhile ?P cleaned = pre"
      by (simp add: takeWhile_tail)
    show ?thesis
      by (simp add: nt dw tw)
  qed
  moreover have "normalised_title get_title_tokens title = (None, map py_lower cleaned)"
    if b: "\<forall>t \<in> set cleaned. \<not> py_isdigit t"
  proof -
    from b have dw: "dropWhile ?P cleaned = []"
      by simp
    from b have tw: "takeWhile ?P cleaned = cleaned"
      by simp
    show ?thesis
      by (simp add: nt dw tw)
  qed
  ultimately show ?thesis
    by blast
qed



theorem normalised_title_issue_number_witness:
  "normalised_title blank_tokens ''X #3: Z'' = (Some 3, [''x''])
   \<and> normalised_title blank_tokens ''Up v2 #a'' = (None, [''up'', ''a''])"
proof -
  have c1: "map clean_token (filter (\<lambda>t. \<not> volume_match t) (blank_tokens (abbrev_sub ''X #3: Z'')))
          = [''X'', ''3'', ''Z'']"
    by code_simp
  have c2: "map clean_token (filter (\<lambda>t. \<not> volume_match t) (blank_tokens (abbrev_sub ''Up v2 #a'')))
          = [''Up'', ''a'']"
    by code_simp
  have d1: "[''X'', ''3'', ''Z''] = [''X''] @ ''3'' # [''Z''] \<and> (\<forall>t \<in> set [''X'']. \<not> py_isdigit t)
           \<and> py_isdigit ''3''"
    by code_simp
  have d2: "\<forall>t \<in> set [''Up'', ''a'']. \<not> py_isdigit t"
    by code_simp
  have e1: "(Some (py_int_of_str ''3''), map py_lower [''X'']) = (Some 3, [''x''])"
    by code_simp
  have e2: "(None :: int option, map py_lower [''Up'', ''a'']) = (None, [''up'', ''a''])"
    by code_simp
  note t1 = normalised_title_issue_number
      [where get_title_tokens = blank_tokens and title = "''X #3: Z''"
         and pre = "[''X'']" and d = "''3''" and post = "[''Z'']", OF c1]
  note t2 = normalised_title_issue_number
      [where get_title_tokens = blank_tokens and title = "''Up v2 #a''"
         and pre = "[]" and d = "[]" and post = "[]", OF c2]
  from t1 have "normalised_title blank_tokens ''X #3: Z'' = (Some (py_int_of_str ''3''), map py_lower [''X''])"
    using d1 by (rule conjunct1 [THEN mp])
  then have r1: "normalised_title blank_tokens ''X #3: Z'' = (Some 3, [''x''])"
    by (rule trans) (rule e1)
  from t2 have "normalised_title blank_tokens ''Up v2 #a'' = (None, map py_lower [''Up'', ''a''])"
    using d2 by (rule conjunct2 [THEN mp])
  then have r2: "normalised_title blank_tokens ''Up v2 #a'' = (None, [''up'', ''a''])"
    by (rule trans) (rule e2)
  from r1 r2 show ?thesis by (rule conjI)
qed

text \<open>C5, as stated, at the tokens \<open>''3:''\<close> and \<open>''12#''\<close>: stripping would leave
  \<open>''3''\<close> and \<open>''12''\<close>, but the tokens do not start with \<open>#\<close>, are not stripped, and
  are kept as title words.\<close>

theorem normalised_title_strip_counterexample:
  "normalised_title blank_tokens ''X 3:'' = (None, [''x'', ''3:''])
   \<and> normalised_title blank_tokens ''X 12#'' = (None, [''x'', ''12#''])
   \<and> py_strip ''#:'' ''3:'' = ''3'' \<and> py_strip ''#:'' ''12#'' = ''12''
   \<and> blank_tokens (abbrev_sub ''X 3:'') = [''X'', ''3:'']
   \<and> blank_tokens (abbrev_sub ''X 12#'') = [''X'', ''12#'']"
  by code_simp

text \<open>C5, amended: a token that is not a volume marker is stripped of leading and
  trailing \<open>#\<close> and \<open>:\<close> before the digit test only when it starts with \<open>#\<close>;
  any other token is tested, and kept, as it is.\<close>

theorem normalise_tokens_cleaning:
  assumes "\<not> volume_match token"
  shows "(startswith token ''#'' \<longrightarrow>
            normalise_tokens (token # rest) acc =
              (if py_isdigit (py_strip ''#:'' token)
               then (Some (py_int_of_str (py_strip ''#:'' token)), acc)
               else normalise_tokens rest (acc @ [py_lower (py_strip ''#:'' token)])))
     \<and> (\<not> startswith token ''#'' \<longrightarrow>
            normalise_tokens (token # rest) acc =
              (if py_isdigit token then (Some (py_int_of_str token), acc)
               else normalise_tokens rest (acc @ [py_lower token])))"
  using assms by (simp add: clean_token_def Let_def)

theorem normalise_tokens_cleaning_witness:
  "\<not> volume_match ''#3:'' \<and> startswith ''#3:'' ''#''
   \<and> normalise_tokens [''#3:'', ''Z''] [''x''] = (Some 3, [''x''])
   \<and> \<not> volume_match ''3:'' \<and> \<not> startswith ''3:'' ''#''
   \<and> normalise_tokens [''3:'', ''Z''] [''x''] = (None, [''x'', ''3:'', ''z''])"
proof -
  have a: "\<not> volume_match ''#3:''" and b: "\<not> volume_match ''3:''"
    by code_simp+
  have c: "startswith ''#3:'' ''#''" "\<not> startswith ''3:'' ''#''"
    "py_isdigit (py_strip ''#:'' ''#3:'')" "py_int_of_str (py_strip ''#:'' ''#3:'') = 3"
    "\<not> py_isdigit ''3:''" "normalise_tokens [''Z''] ([''x''] @ [py_lower ''3:'']) = (None, [''x'', ''3:'', ''z''])"
    by code_simp+
  from normalise_tokens_cleaning [OF a, of "[''Z'']" "[''x'']"]
    normalise_tokens_cleaning [OF b, of "[''Z'']" "[''x'']"] a b c
  show ?thesis by simp
qed

text \<open>C6: the pre-processing step at \<open>''U.S.A. Comics''\<close>.  The pattern matches
  \<open>''U.S.A.''\<close> and \<open>''Comics''\<close> (its period stands for any character), and each match
  is replaced by the whole title without periods, so the result holds the title
  twice; deleting the periods of the abbreviation alone gives \<open>''USA Comics''\<close>.  A
  title without any period is changed as well.\<close>

theorem abbrev_sub_duplicates_title:
  "abbrev_sub ''U.S.A. Comics'' = ''USA Comics USA Comics''
   \<and> collapse_abbreviations_spec ''U.S.A. Comics'' = ''USA Comics''
   \<and> abbrev_sub ''Batman X'' = ''Batman X X''
   \<and> collapse_abbreviations_spec ''Batman X'' = ''Batman X''"
  by code_simp

end
